theory Spec2Isabelle
  imports Complex_Main "HOL-Library.Word" "HOL-Library.Log_Nat"
begin

unbundle bit_operations_syntax

section \<open>Python values and exceptions\<close>

text \<open>
  \<^verbatim>\<open>bytes\<close> and \<^verbatim>\<open>bytearray\<close> are lists of 8-bit words; Python's unbounded \<^verbatim>\<open>int\<close> is
  \<open>int\<close>. An exception is a value: its class, and for the classes whose message matters
  the literal text of the message (interpolated values left out).
\<close>

type_synonym byte = "8 word"

datatype error =
    RuntimeError string
  | ValueError string
  | TypeError string
  | IndexError
  | OverflowError
  | UnboundLocalError string
  | SerialException

text \<open>An argument of a call, as far as the calls of this program need it.\<close>

datatype pyarg = PyInt int | PyStr string | PyBool bool

text \<open>
  What a global name can be bound to where \<^verbatim>\<open>set_id\<close> reads the name \<^verbatim>\<open>id\<close>: the
  builtin function, or (after the script part of the module has run its line
  \<^verbatim>\<open>id = ServoController.get_id()\<close>) an integer.
\<close>

datatype pyobj = BuiltinFunction | IntObj int

section \<open>utility.py\<close>

datatype Command =
    SERVO_MOVE_TIME_WRITE
  | SERVO_MOVE_TIME_READ
  | SERVO_MOVE_TIME_WAIT_WRITE
  | SERVO_MOVE_TIME_WAIT_READ
  | SERVO_MOVE_START
  | SERVO_MOVE_STOP
  | SERVO_ID_WRITE
  | SERVO_ID_READ
  | SERVO_ANGLE_OFFSET_ADJUST
  | SERVO_ANGLE_OFFSET_WRITE
  | SERVO_ANGLE_OFFSET_READ
  | SERVO_ANGLE_LIMIT_WRITE
  | SERVO_ANGLE_LIMIT_READ
  | SERVO_VIN_LIMIT_WRITE
  | SERVO_VIN_LIMIT_READ
  | SERVO_TEMP_MAX_LIMIT_WRITE
  | SERVO_TEMP_MAX_LIMIT_READ
  | SERVO_TEMP_READ
  | SERVO_VIN_READ
  | SERVO_POS_READ
  | SERVO_OR_MOTOR_MODE_WRITE
  | SERVO_OR_MOTOR_MODE_READ
  | SERVO_LOAD_OR_UNLOAD_WRITE
  | SERVO_LOAD_OR_UNLOAD_READ
  | SERVO_LED_CTRL_WRITE
  | SERVO_LED_CTRL_READ
  | SERVO_LED_ERROR_WRITE
  | SERVO_LED_ERROR_READ

text \<open>The integer value of a member of the \<^verbatim>\<open>IntEnum\<close>.\<close>

fun opcode :: "Command \<Rightarrow> int" where
  "opcode SERVO_MOVE_TIME_WRITE = 1"
| "opcode SERVO_MOVE_TIME_READ = 2"
| "opcode SERVO_MOVE_TIME_WAIT_WRITE = 7"
| "opcode SERVO_MOVE_TIME_WAIT_READ = 8"
| "opcode SERVO_MOVE_START = 11"
| "opcode SERVO_MOVE_STOP = 12"
| "opcode SERVO_ID_WRITE = 13"
| "opcode SERVO_ID_READ = 14"
| "opcode SERVO_ANGLE_OFFSET_ADJUST = 17"
| "opcode SERVO_ANGLE_OFFSET_WRITE = 18"
| "opcode SERVO_ANGLE_OFFSET_READ = 19"
| "opcode SERVO_ANGLE_LIMIT_WRITE = 20"
| "opcode SERVO_ANGLE_LIMIT_READ = 21"
| "opcode SERVO_VIN_LIMIT_WRITE = 22"
| "opcode SERVO_VIN_LIMIT_READ = 23"
| "opcode SERVO_TEMP_MAX_LIMIT_WRITE = 24"
| "opcode SERVO_TEMP_MAX_LIMIT_READ = 25"
| "opcode SERVO_TEMP_READ = 26"
| "opcode SERVO_VIN_READ = 27"
| "opcode SERVO_POS_READ = 28"
| "opcode SERVO_OR_MOTOR_MODE_WRITE = 29"
| "opcode SERVO_OR_MOTOR_MODE_READ = 30"
| "opcode SERVO_LOAD_OR_UNLOAD_WRITE = 31"
| "opcode SERVO_LOAD_OR_UNLOAD_READ = 32"
| "opcode SERVO_LED_CTRL_WRITE = 33"
| "opcode SERVO_LED_CTRL_READ = 34"
| "opcode SERVO_LED_ERROR_WRITE = 35"
| "opcode SERVO_LED_ERROR_READ = 36"

definition all_commands :: "Command list" where
  "all_commands =
     [SERVO_MOVE_TIME_WRITE, SERVO_MOVE_TIME_READ, SERVO_MOVE_TIME_WAIT_WRITE,
      SERVO_MOVE_TIME_WAIT_READ, SERVO_MOVE_START, SERVO_MOVE_STOP, SERVO_ID_WRITE,
      SERVO_ID_READ, SERVO_ANGLE_OFFSET_ADJUST, SERVO_ANGLE_OFFSET_WRITE,
      SERVO_ANGLE_OFFSET_READ, SERVO_ANGLE_LIMIT_WRITE, SERVO_ANGLE_LIMIT_READ,
      SERVO_VIN_LIMIT_WRITE, SERVO_VIN_LIMIT_READ, SERVO_TEMP_MAX_LIMIT_WRITE,
      SERVO_TEMP_MAX_LIMIT_READ, SERVO_TEMP_READ, SERVO_VIN_READ, SERVO_POS_READ,
      SERVO_OR_MOTOR_MODE_WRITE, SERVO_OR_MOTOR_MODE_READ, SERVO_LOAD_OR_UNLOAD_WRITE,
      SERVO_LOAD_OR_UNLOAD_READ, SERVO_LED_CTRL_WRITE, SERVO_LED_CTRL_READ,
      SERVO_LED_ERROR_WRITE, SERVO_LED_ERROR_READ]"

text \<open>\<^verbatim>\<open>Command(v)\<close>: the member with value \<open>v\<close>, ValueError when there is none.\<close>

definition Command_of_value :: "int \<Rightarrow> error + Command" where
  "Command_of_value v =
     (case find (\<lambda>c. opcode c = v) all_commands of
        None \<Rightarrow> Inl (ValueError ''is not a valid Command'')
      | Some c \<Rightarrow> Inr c)"

definition SERVO_BRODCAST :: int where
  "SERVO_BRODCAST = 0xfe"

subsection \<open>\<^verbatim>\<open>int.to_bytes\<close> and \<^verbatim>\<open>int.from_bytes\<close>\<close>

text \<open>The \<open>n\<close> low bytes of \<open>v\<close> in two's complement, least significant first.\<close>

definition little_endian :: "nat \<Rightarrow> int \<Rightarrow> byte list" where
  "little_endian n v = map (\<lambda>i. word_of_int (v div 256 ^ i)) [0..<n]"

text \<open>
  \<^verbatim>\<open>v.to_bytes(n, "little", signed=sg)\<close>: OverflowError when \<open>v\<close> does not fit \<open>n\<close> bytes
  at that signedness.
\<close>

definition to_bytes_little :: "int \<Rightarrow> nat \<Rightarrow> bool \<Rightarrow> error + byte list" where
  "to_bytes_little v n sg =
     (if sg then
        (if - (2 ^ (8 * n)) \<le> 2 * v \<and> 2 * v < 2 ^ (8 * n) then Inr (little_endian n v)
         else Inl OverflowError)
      else
        (if 0 \<le> v \<and> v < 2 ^ (8 * n) then Inr (little_endian n v)
         else Inl OverflowError))"

text \<open>
  The call \<^verbatim>\<open>v.to_bytes(...)\<close> with its positional arguments and its keyword argument
  \<^verbatim>\<open>signed\<close> (None when not given). The signature is
  \<^verbatim>\<open>int.to_bytes(length=1, byteorder='big', *, signed=False)\<close>: \<^verbatim>\<open>signed\<close> is keyword-only,
  so a third positional argument is a TypeError.
\<close>

definition to_bytes :: "int \<Rightarrow> pyarg list \<Rightarrow> bool option \<Rightarrow> error + byte list" where
  "to_bytes v pos signed_kw =
     (if 2 < length pos
      then Inl (TypeError ''to_bytes() takes at most 2 positional arguments'')
      else case pos of
        [PyInt n, PyStr order] \<Rightarrow>
          (if order \<noteq> ''little'' \<and> order \<noteq> ''big''
           then Inl (ValueError ''byteorder must be either little or big'')
           else if n < 0 then Inl (ValueError ''length argument must be non-negative'')
           else case to_bytes_little v (nat n) (case signed_kw of None \<Rightarrow> False | Some b \<Rightarrow> b) of
             Inl e \<Rightarrow> Inl e
           | Inr bs \<Rightarrow> if order = ''little'' then Inr bs else Inr (rev bs))
      | _ \<Rightarrow> Inl (TypeError ''to_bytes() argument''))"

text \<open>\<^verbatim>\<open>int.from_bytes(bs, "little", signed=sg)\<close>.\<close>

definition from_bytes_little :: "byte list \<Rightarrow> bool \<Rightarrow> int" where
  "from_bytes_little bs sg =
     (let u = foldr (\<lambda>b acc. uint b + 256 * acc) bs 0
      in if sg \<and> 2 ^ (8 * length bs) \<le> 2 * u then u - 2 ^ (8 * length bs) else u)"

subsection \<open>The functions of utility.py\<close>

definition param2bytes :: "int \<Rightarrow> int \<Rightarrow> bool \<Rightarrow> error + byte list" where
  "param2bytes param len is_signed =
     to_bytes param [PyInt len, PyStr ''little'', PyBool is_signed] None"

definition bytes2param :: "byte list \<Rightarrow> bool \<Rightarrow> int" where
  "bytes2param byte_arr is_signed = from_bytes_little byte_arr is_signed"

subsection \<open>Floats\<close>

text \<open>
  A Python \<^verbatim>\<open>float\<close> is an IEEE-754 double: a finite value, an infinity or NaN. A finite
  double is given by the rational it denotes (the two zeros are one value here; no
  operation of this program tells them apart).
\<close>

datatype pyfloat = Finite rat | PosInf | NegInf | NaN

text \<open>The nearest integer, a tie going to the even one.\<close>

definition round_half_even :: "rat \<Rightarrow> int" where
  "round_half_even t =
     (let f = \<lfloor>t\<rfloor>; r = t - of_int f
      in if r < 1 / 2 then f
         else if 1 / 2 < r then f + 1
         else if even f then f else f + 1)"

text \<open>
  For \<open>x > 0\<close>, the \<open>e\<close> with \<open>2 ^ e \<le> x < 2 ^ (e + 1)\<close>: the bit lengths of numerator and
  denominator give it up to one, and a comparison decides.
\<close>

definition ilog2 :: "rat \<Rightarrow> int" where
  "ilog2 x =
     (let (p, q) = quotient_of x;
          e0 = bitlen p - bitlen q - 1
      in if 2 powi (e0 + 1) \<le> x then e0 + 1 else e0)"

text \<open>
  The exponent of the last mantissa bit of the doubles around \<open>x > 0\<close>: 53 bits of
  mantissa, and never below the exponent of the subnormal doubles.
\<close>

definition exponent :: "rat \<Rightarrow> int" where
  "exponent x = max (ilog2 x - 52) (- 1074)"

text \<open>The multiple of \<open>2 ^ exponent x\<close> nearest to \<open>x > 0\<close>, a tie going to the even one.\<close>

definition nearest :: "rat \<Rightarrow> rat" where
  "nearest x = of_int (round_half_even (x / 2 powi exponent x)) * 2 powi exponent x"

text \<open>
  The double that an arithmetic operation returns when its exact result is \<open>x\<close>: round
  to nearest, ties to even, and an infinity from \<open>2 ^ 1024\<close> on.
\<close>

definition round_double :: "rat \<Rightarrow> pyfloat" where
  "round_double x =
     (if x = 0 then Finite 0
      else if 2 powi 1024 \<le> nearest \<bar>x\<bar> then (if 0 < x then PosInf else NegInf)
      else Finite (sgn x * nearest \<bar>x\<bar>))"


text \<open>
  \<^verbatim>\<open>a < c\<close>, \<^verbatim>\<open>a > c\<close>, \<^verbatim>\<open>a * c\<close> and \<^verbatim>\<open>a / c\<close> for a float \<open>a\<close> and an \<^verbatim>\<open>int\<close> constant \<open>c\<close>.
  Python compares a float and an int exactly. For the arithmetic it converts the int to
  a float, which is exact for the constants of this program (1000, 240, 125, 30), and
  rounds the result of the operation. The constants are positive, so an infinity keeps
  its sign and the division never raises ZeroDivisionError.
\<close>

definition float_lt :: "pyfloat \<Rightarrow> int \<Rightarrow> bool" where
  "float_lt a c =
     (case a of
        Finite x \<Rightarrow> x < of_int c
      | PosInf \<Rightarrow> False
      | NegInf \<Rightarrow> True
      | NaN \<Rightarrow> False)"

definition float_gt :: "pyfloat \<Rightarrow> int \<Rightarrow> bool" where
  "float_gt a c =
     (case a of
        Finite x \<Rightarrow> of_int c < x
      | PosInf \<Rightarrow> True
      | NegInf \<Rightarrow> False
      | NaN \<Rightarrow> False)"

definition float_times :: "pyfloat \<Rightarrow> int \<Rightarrow> pyfloat" where
  "float_times a c =
     (case a of
        Finite x \<Rightarrow> round_double (x * of_int c)
      | PosInf \<Rightarrow> PosInf
      | NegInf \<Rightarrow> NegInf
      | NaN \<Rightarrow> NaN)"

definition float_over :: "pyfloat \<Rightarrow> int \<Rightarrow> pyfloat" where
  "float_over a c =
     (case a of
        Finite x \<Rightarrow> round_double (x / of_int c)
      | PosInf \<Rightarrow> PosInf
      | NegInf \<Rightarrow> NegInf
      | NaN \<Rightarrow> NaN)"

text \<open>
  \<^verbatim>\<open>int(a)\<close> on a float truncates towards zero; it raises OverflowError on an infinity
  and ValueError on NaN.
\<close>

definition py_int :: "pyfloat \<Rightarrow> error + int" where
  "py_int a =
     (case a of
        Finite x \<Rightarrow> Inr (if 0 \<le> x then \<lfloor>x\<rfloor> else \<lceil>x\<rceil>)
      | PosInf \<Rightarrow> Inl OverflowError
      | NegInf \<Rightarrow> Inl OverflowError
      | NaN \<Rightarrow> Inl (ValueError ''cannot convert float NaN to integer''))"

definition degree2cmd :: "pyfloat \<Rightarrow> error + int" where
  "degree2cmd degree =
     (if float_lt degree 0 \<or> float_gt degree 240
      then Inl (ValueError ''Degree should be in range [0, 240]'')
      else py_int (float_over (float_times degree 1000) 240))"

definition degree2offset :: "pyfloat \<Rightarrow> error + int" where
  "degree2offset degree =
     (if float_lt degree (- 30) \<or> float_gt degree 30
      then Inl (ValueError ''Degree should be in range [-30, 30]'')
      else py_int (float_over (float_times degree 125) 30))"

section \<open>The serial transport\<close>

text \<open>
  A stand-in for \<^verbatim>\<open>serial.Serial\<close>: the bytes waiting to be read, the bytes written so
  far, and whether \<^verbatim>\<open>write\<close> raises. The bytes waiting are all there from the start;
  nothing arrives later.
\<close>

record serial =
  port :: string
  in_buffer :: "byte list"
  written :: "byte list"
  write_fails :: bool

definition in_waiting :: "serial \<Rightarrow> nat" where
  "in_waiting h = length (in_buffer h)"

text \<open>\<^verbatim>\<open>read(n)\<close>: up to \<open>n\<close> bytes, none for a size below one.\<close>

definition serial_read :: "int \<Rightarrow> serial \<Rightarrow> byte list \<times> serial" where
  "serial_read n h =
     (take (nat n) (in_buffer h), h\<lparr>in_buffer := drop (nat n) (in_buffer h)\<rparr>)"

definition serial_write :: "byte list \<Rightarrow> serial \<Rightarrow> error + serial" where
  "serial_write bs h =
     (if write_fails h then Inl SerialException
      else Inr (h\<lparr>written := written h @ bs\<rparr>))"

section \<open>ServoController\<close>

text \<open>
  The state of the process: the class attribute \<^verbatim>\<open>handle\<close>, the ports of the transports
  that are open, the devices that \<^verbatim>\<open>serial.Serial\<close> can open, the lines printed and
  the warnings issued (the literal text of each).
\<close>

record state =
  handle :: "serial option"
  open_ports :: "string list"
  devices :: "string list"
  stdout :: "string list"
  warnings :: "string list"

definition print :: "string \<Rightarrow> state \<Rightarrow> state" where
  "print line s = s\<lparr>stdout := stdout s @ [line]\<rparr>"

text \<open>\<^verbatim>\<open>serial.Serial(device, baudrate, timeout=timeout)\<close> opens a transport or raises.\<close>

definition Serial :: "string \<Rightarrow> state \<Rightarrow> error + serial \<times> state" where
  "Serial device s =
     (if device \<in> set (devices s)
      then Inr (\<lparr>port = device, in_buffer = [], written = [], write_fails = False\<rparr>,
                s\<lparr>open_ports := open_ports s @ [device]\<rparr>)
      else Inl SerialException)"

definition serial_close :: "serial \<Rightarrow> state \<Rightarrow> state" where
  "serial_close h s = s\<lparr>open_ports := remove1 (port h) (open_ports s)\<rparr>"

definition check_handle :: "state \<Rightarrow> error + unit" where
  "check_handle s =
     (case handle s of
        None \<Rightarrow> Inl (RuntimeError ''Servo controller is not connected'')
      | Some _ \<Rightarrow> Inr ())"

definition connect :: "string \<Rightarrow> state \<Rightarrow> (error + unit) \<times> state" where
  "connect device s =
     (case handle s of
        Some _ \<Rightarrow> (Inr (), print ''Servo controller is already connected'' s)
      | None \<Rightarrow>
          (case Serial device s of
             Inl e \<Rightarrow> (Inl e, s)
           | Inr (h, s') \<Rightarrow>
               (Inr (), print ''Servo controller connected'' (s'\<lparr>handle := Some h\<rparr>))))"

definition disconnect :: "state \<Rightarrow> (error + unit) \<times> state" where
  "disconnect s =
     (case check_handle s of
        Inl e \<Rightarrow> (Inl e, s)
      | Inr _ \<Rightarrow>
          (case handle s of
             None \<Rightarrow> (Inl (RuntimeError ''Servo controller is not connected''), s)
           | Some h \<Rightarrow>
               (Inr (), print ''Servo controller disconnected''
                          ((serial_close h s)\<lparr>handle := None\<rparr>))))"

subsection \<open>Frames\<close>

text \<open>The buffer that \<^verbatim>\<open>send_command\<close> builds before it writes.\<close>

definition send_command_buffer :: "int \<Rightarrow> Command \<Rightarrow> byte list \<Rightarrow> error + byte list" where
  "send_command_buffer servo_id command params =
     (case to_bytes servo_id [PyInt 1, PyStr ''little''] None of
        Inl e \<Rightarrow> Inl e
      | Inr b_id \<Rightarrow>
     (case to_bytes (int (length params) + 3) [PyInt 1, PyStr ''little''] None of
        Inl e \<Rightarrow> Inl e
      | Inr b_len \<Rightarrow>
     (case to_bytes (opcode command) [PyInt 1, PyStr ''little''] None of
        Inl e \<Rightarrow> Inl e
      | Inr b_cmd \<Rightarrow>
     (let buffer = [0x55, 0x55] @ b_id @ b_len @ b_cmd @ params
      in case to_bytes (NOT (sum_list (map uint (drop 2 buffer))) mod 256)
                [PyInt 1, PyStr ''little''] None of
           Inl e \<Rightarrow> Inl e
         | Inr b_sum \<Rightarrow> Inr (buffer @ b_sum)))))"

definition send_command :: "int \<Rightarrow> Command \<Rightarrow> byte list \<Rightarrow> state \<Rightarrow> (error + unit) \<times> state" where
  "send_command servo_id command params s =
     (case check_handle s of
        Inl e \<Rightarrow> (Inl e, s)
      | Inr _ \<Rightarrow>
          (case send_command_buffer servo_id command params of
             Inl e \<Rightarrow> (Inl e, s)
           | Inr buffer \<Rightarrow>
               (case handle s of
                  None \<Rightarrow> (Inl (RuntimeError ''Servo controller is not connected''), s)
                | Some h \<Rightarrow>
                    (case serial_write buffer h of
                       Inl e \<Rightarrow> (Inl e, print ''Error: Happened during sending command'' s)
                     | Inr h' \<Rightarrow> (Inr (), s\<lparr>handle := Some h'\<rparr>)))))"

text \<open>\<^verbatim>\<open>buffer[i]\<close> for an index that is not negative.\<close>

definition getitem :: "byte list \<Rightarrow> nat \<Rightarrow> error + byte" where
  "getitem buffer i = (if i < length buffer then Inr (buffer ! i) else Inl IndexError)"

text \<open>
  The loop \<^verbatim>\<open>while cls.handle.in_waiting == 0: pass\<close>. Nothing changes the transport
  while it runs, so it ends at once or never.
\<close>

partial_function (option) wait_in_waiting :: "serial \<Rightarrow> unit option" where
  "wait_in_waiting h = (if in_waiting h = 0 then wait_in_waiting h else Some ())"

text \<open>
  \<^verbatim>\<open>read_response\<close> from the first read on. The message of the header error is built
  with \<^verbatim>\<open>hex(buffer[:2])\<close>, and \<^verbatim>\<open>hex\<close> of a \<^verbatim>\<open>bytes\<close> object is a TypeError, raised
  before the RuntimeError exists.
\<close>

definition read_frame ::
  "int \<Rightarrow> Command option \<Rightarrow> serial \<Rightarrow> (error + Command \<times> byte list) \<times> serial" where
  "read_frame servo_id command h =
     (let (buffer, h1) = serial_read 4 h in
      if take 2 buffer \<noteq> [0x55, 0x55]
      then (Inl (TypeError ''bytes object cannot be interpreted as an integer''), h1)
      else
        (case (if servo_id \<noteq> SERVO_BRODCAST
               then (case getitem buffer 2 of
                       Inl e \<Rightarrow> Inl e
                     | Inr b \<Rightarrow> Inr (uint b \<noteq> servo_id))
               else Inr False) of
           Inl e \<Rightarrow> (Inl e, h1)
         | Inr wrong_id \<Rightarrow>
      if wrong_id then (Inl (RuntimeError ''Invalid response servo ID''), h1)
      else
        (case getitem buffer 3 of
           Inl e \<Rightarrow> (Inl e, h1)
         | Inr length_byte \<Rightarrow>
             (let (more, h2) = serial_read (uint length_byte - 1) h1;
                  buffer = buffer @ more
              in case (case command of
                         None \<Rightarrow> Inr False
                       | Some c \<Rightarrow>
                           (case getitem buffer 4 of
                              Inl e \<Rightarrow> Inl e
                            | Inr b \<Rightarrow> Inr (uint b \<noteq> opcode c))) of
                   Inl e \<Rightarrow> (Inl e, h2)
                 | Inr wrong_command \<Rightarrow>
                     if wrong_command
                     then (Inl (RuntimeError ''Invalid response command''), h2)
                     else
                     (let expected_checksum =
                            NOT (sum_list (map uint (drop 2 (butlast buffer)))) mod 256
                      in if uint (last buffer) \<noteq> expected_checksum
                         then (Inl (RuntimeError ''Invalid response checksum''), h2)
                         else
                           (case getitem buffer 4 of
                              Inl e \<Rightarrow> (Inl e, h2)
                            | Inr b \<Rightarrow>
                                (case Command_of_value (uint b) of
                                   Inl e \<Rightarrow> (Inl e, h2)
                                 | Inr c \<Rightarrow> (Inr (c, drop 5 (butlast buffer)), h2))))))))"

definition read_response ::
  "int \<Rightarrow> Command option \<Rightarrow> state \<Rightarrow> ((error + Command \<times> byte list) \<times> state) option" where
  "read_response servo_id command s =
     (case check_handle s of
        Inl e \<Rightarrow> Some (Inl e, s)
      | Inr _ \<Rightarrow>
          (case handle s of
             None \<Rightarrow> Some (Inl (RuntimeError ''Servo controller is not connected''), s)
           | Some h \<Rightarrow>
               (case wait_in_waiting h of
                  None \<Rightarrow> None
                | Some _ \<Rightarrow>
                    (let (r, h') = read_frame servo_id command h
                     in Some (r, s\<lparr>handle := Some h'\<rparr>)))))"

subsection \<open>The operations on a servo\<close>

definition set_move_time ::
  "int \<Rightarrow> int \<Rightarrow> bool \<Rightarrow> int \<Rightarrow> state \<Rightarrow> (error + unit) \<times> state" where
  "set_move_time position time is_wait servo_id s =
     (case check_handle s of
        Inl e \<Rightarrow> (Inl e, s)
      | Inr _ \<Rightarrow>
          if position < 0 \<or> position > 1000
          then (Inl (RuntimeError ''Invalid position (0~1000)''), s)
          else if time < 0 \<or> time > 30000
          then (Inl (RuntimeError ''Invalid time (0~30000)''), s)
          else if is_wait
          then
            (case param2bytes position 2 False of
               Inl e \<Rightarrow> (Inl e, s)
             | Inr p \<Rightarrow>
                 (case param2bytes time 2 False of
                    Inl e \<Rightarrow> (Inl e, s)
                  | Inr t \<Rightarrow> send_command servo_id SERVO_MOVE_TIME_WAIT_WRITE (p @ t) s))
          else
            (case param2bytes position 2 False of
               Inl e \<Rightarrow> (Inl e, s)
             | Inr p \<Rightarrow>
                 (case param2bytes time 2 False of
                    Inl e \<Rightarrow> (Inl e, s)
                  | Inr t \<Rightarrow> send_command servo_id SERVO_MOVE_TIME_WRITE (p @ t) s)))"

text \<open>
  \<^verbatim>\<open>x < n\<close> and \<^verbatim>\<open>x > n\<close> for what a global name is bound to: a function does not
  compare with an integer.
\<close>

definition py_lt :: "pyobj \<Rightarrow> int \<Rightarrow> error + bool" where
  "py_lt x n =
     (case x of
        BuiltinFunction \<Rightarrow>
          Inl (TypeError ''< not supported between builtin_function_or_method and int'')
      | IntObj k \<Rightarrow> Inr (k < n))"

definition py_gt :: "pyobj \<Rightarrow> int \<Rightarrow> error + bool" where
  "py_gt x n =
     (case x of
        BuiltinFunction \<Rightarrow>
          Inl (TypeError ''> not supported between builtin_function_or_method and int'')
      | IntObj k \<Rightarrow> Inr (k > n))"

definition warn :: "string \<Rightarrow> state \<Rightarrow> state" where
  "warn msg s = s\<lparr>warnings := warnings s @ [msg]\<rparr>"

text \<open>
  \<^verbatim>\<open>set_id\<close> tests the name \<^verbatim>\<open>id\<close>, not its parameter \<^verbatim>\<open>target_id\<close>; the first argument
  here is what \<^verbatim>\<open>id\<close> is bound to.
\<close>

definition set_id :: "pyobj \<Rightarrow> int \<Rightarrow> int \<Rightarrow> state \<Rightarrow> (error + unit) \<times> state" where
  "set_id id_global target_id servo_id s =
     (case check_handle s of
        Inl e \<Rightarrow> (Inl e, s)
      | Inr _ \<Rightarrow>
          (case (case py_lt id_global 0 of
                   Inl e \<Rightarrow> Inl e
                 | Inr below \<Rightarrow> if below then Inr True else py_gt id_global 253) of
             Inl e \<Rightarrow> (Inl e, s)
           | Inr outside \<Rightarrow>
               if outside then (Inl (RuntimeError []), s)
               else
                 (let s1 = (if servo_id = SERVO_BRODCAST
                            then warn ''You are broadcasting writing id!'' s else s)
                  in case param2bytes target_id 1 False of
                       Inl e \<Rightarrow> (Inl e, s1)
                     | Inr p \<Rightarrow> send_command servo_id SERVO_MOVE_STOP p s1)))"

definition set_motor_mode :: "int option \<Rightarrow> int \<Rightarrow> state \<Rightarrow> (error + unit) \<times> state" where
  "set_motor_mode speed servo_id s =
     (case check_handle s of
        Inl e \<Rightarrow> (Inl e, s)
      | Inr _ \<Rightarrow>
          (case speed of
             None \<Rightarrow> send_command servo_id SERVO_OR_MOTOR_MODE_WRITE [0x00, 0x00, 0x00, 0x00] s
           | Some v \<Rightarrow>
               if v < -1000 \<or> v > 1000
               then (Inl (ValueError ''Invalid speed (-1000~1000)''), s)
               else
                 (case param2bytes v 2 True of
                    Inl e \<Rightarrow> (Inl e, s)
                  | Inr p \<Rightarrow>
                      send_command servo_id SERVO_TEMP_MAX_LIMIT_WRITE ([0x01, 0x00] @ p) s)))"

text \<open>
  \<^verbatim>\<open>x += e\<close> on a local variable: None is a local that no assignment has bound yet,
  and reading it is an UnboundLocalError.
\<close>

definition aug_add :: "int option \<Rightarrow> int \<Rightarrow> error + int option" where
  "aug_add x e =
     (case x of
        None \<Rightarrow> Inl (UnboundLocalError ''cannot access local variable status'')
      | Some v \<Rightarrow> Inr (Some (v + e)))"

text \<open>\<^verbatim>\<open>bytearray([v])\<close>: one byte, ValueError outside \<^verbatim>\<open>range(256)\<close>.\<close>

definition bytearray1 :: "int \<Rightarrow> error + byte list" where
  "bytearray1 v =
     (if 0 \<le> v \<and> v < 256 then Inr [word_of_int v]
      else Inl (ValueError ''byte must be in range(0, 256)''))"

text \<open>
  \<^verbatim>\<open>set_led_error\<close> never assigns \<^verbatim>\<open>status\<close> before its first \<^verbatim>\<open>status += ...\<close>, so
  the local starts unbound.
\<close>

definition set_led_error ::
  "bool \<Rightarrow> bool \<Rightarrow> bool \<Rightarrow> int \<Rightarrow> state \<Rightarrow> (error + unit) \<times> state" where
  "set_led_error temp_warn vin_warn stick_warn servo_id s =
     (case check_handle s of
        Inl e \<Rightarrow> (Inl e, s)
      | Inr _ \<Rightarrow>
          (let status = None in
           case aug_add status (if temp_warn then 1 else 0) of
             Inl e \<Rightarrow> (Inl e, s)
           | Inr status \<Rightarrow>
          (case aug_add status (if vin_warn then 2 else 0) of
             Inl e \<Rightarrow> (Inl e, s)
           | Inr status \<Rightarrow>
          (case aug_add status (if stick_warn then 4 else 0) of
             Inl e \<Rightarrow> (Inl e, s)
           | Inr status \<Rightarrow>
          (case status of
             None \<Rightarrow> (Inl (UnboundLocalError ''cannot access local variable status''), s)
           | Some v \<Rightarrow>
               (case bytearray1 v of
                  Inl e \<Rightarrow> (Inl e, s)
                | Inr p \<Rightarrow> send_command servo_id SERVO_LED_ERROR_WRITE p s))))))"

subsection \<open>Sequences of connect and disconnect\<close>

datatype call = Connect string | Disconnect

fun run_call :: "call \<Rightarrow> state \<Rightarrow> (error + unit) \<times> state" where
  "run_call (Connect device) s = connect device s"
| "run_call Disconnect s = disconnect s"

text \<open>
  The calls one after the other; a call that raises leaves the state as it is at the
  raise, and the caller goes on.
\<close>

fun run_calls :: "call list \<Rightarrow> state \<Rightarrow> state" where
  "run_calls [] s = s"
| "run_calls (c # cs) s = run_calls cs (snd (run_call c s))"

section \<open>What the specification says\<close>

text \<open>
  The frame in the specification's words: header, destination, payload length plus three,
  opcode, payload, and the complement of the sum of the bytes after the header, all in
  bytes (so the sum is taken mod 256).
\<close>

definition spec_frame :: "int \<Rightarrow> Command \<Rightarrow> byte list \<Rightarrow> byte list" where
  "spec_frame destination command payload =
     (let body = [word_of_int destination, word_of_int (int (length payload) + 3),
                  word_of_int (opcode command)] @ payload
      in [0x55, 0x55] @ body @ [NOT (sum_list body)])"

text \<open>
  The connection of the specification: the transports open in the process are the one
  the controller holds, if it holds one.
\<close>

definition one_transport :: "state \<Rightarrow> bool" where
  "one_transport s =
     (open_ports s = (case handle s of None \<Rightarrow> [] | Some h \<Rightarrow> [port h]))"

section \<open>States for the examples\<close>

text \<open>The controller as the process starts: no handle, nothing open.\<close>

definition unconnected :: "string list \<Rightarrow> state" where
  "unconnected devs =
     \<lparr>handle = None, open_ports = [], devices = devs, stdout = [], warnings = []\<rparr>"

text \<open>A controller that holds an open transport with the given bytes waiting.\<close>

definition connected_with :: "byte list \<Rightarrow> state" where
  "connected_with bs =
     \<lparr>handle = Some \<lparr>port = ''/dev/ttyUSB0'', in_buffer = bs, written = [],
                      write_fails = False\<rparr>,
      open_ports = [''/dev/ttyUSB0''], devices = [''/dev/ttyUSB0''], stdout = [],
      warnings = []\<rparr>"

section \<open>Bytes, opcodes and checksums\<close>

lemma to_bytes_one:
  "to_bytes v [PyInt 1, PyStr ''little''] None =
     (if 0 \<le> v \<and> v < 256 then Inr [word_of_int v] else Inl OverflowError)"
  by (simp add: to_bytes_def to_bytes_little_def little_endian_def)

lemma opcode_range: "0 \<le> opcode c \<and> opcode c < 256"
  by (cases c) simp_all

lemma Command_of_value_opcode: "Command_of_value (opcode c) = Inr c"
  by (cases c) (simp_all add: Command_of_value_def all_commands_def)

lemma word_of_int_sum_list_uint:
  "word_of_int (sum_list (map uint bs)) = (sum_list bs :: byte)"
  by (induction bs) simp_all

lemma checksum_word:
  "word_of_int (NOT (sum_list (map uint bs)) mod 256) = (NOT (sum_list bs) :: byte)"
proof -
  have "word_of_int (NOT (sum_list (map uint bs)) mod 256)
          = (word_of_int (NOT (sum_list (map uint bs))) :: byte)"
    by (simp add: word_of_int_eq_iff take_bit_eq_mod)
  also have "\<dots> = NOT (word_of_int (sum_list (map uint bs)))"
    by (simp add: word_wi_log_defs(1))
  finally show ?thesis
    by (simp add: word_of_int_sum_list_uint)
qed

lemma wait_in_waiting_ready: "in_waiting h \<noteq> 0 \<Longrightarrow> wait_in_waiting h = Some ()"
  by (subst wait_in_waiting.simps) simp

lemma checksum_to_bytes:
  "to_bytes (NOT (sum_list (map uint bs)) mod 256) [PyInt 1, PyStr ''little''] None
     = Inr [NOT (sum_list bs) :: byte]"
proof -
  have "0 \<le> NOT (sum_list (map uint bs)) mod 256 \<and> NOT (sum_list (map uint bs)) mod 256 < 256"
    by simp
  then show ?thesis
    unfolding to_bytes_one by (simp add: checksum_word)
qed

lemma send_command_buffer_eq:
  "send_command_buffer servo_id command params =
     (if 0 \<le> servo_id \<and> servo_id \<le> 255 \<and> length params \<le> 252
      then Inr (spec_frame servo_id command params)
      else Inl OverflowError)"
proof (cases "0 \<le> servo_id \<and> servo_id \<le> 255 \<and> length params \<le> 252")
  case True
  have oc: "0 \<le> opcode command \<and> opcode command < 256" by (rule opcode_range)
  have t1: "to_bytes servo_id [PyInt 1, PyStr ''little''] None = Inr [word_of_int servo_id]"
    using True by (simp add: to_bytes_one)
  have t2: "to_bytes (int (length params) + 3) [PyInt 1, PyStr ''little''] None
              = Inr [word_of_int (int (length params) + 3)]"
    using True by (simp add: to_bytes_one)
  have t3: "to_bytes (opcode command) [PyInt 1, PyStr ''little''] None
              = Inr [word_of_int (opcode command)]"
    using oc by (simp add: to_bytes_one)
  have d: "drop 2 ([0x55, 0x55] @ [word_of_int servo_id] @ [word_of_int (int (length params) + 3)] @ [word_of_int (opcode command)] @ params)
     = [word_of_int servo_id, word_of_int (int (length params) + 3), word_of_int (opcode command) :: byte] @ params"
    by simp
  have "send_command_buffer servo_id command params =
     Inr (([0x55, 0x55] @ [word_of_int servo_id] @ [word_of_int (int (length params) + 3)] @ [word_of_int (opcode command)] @ params) @
        [NOT (sum_list ([word_of_int servo_id, word_of_int (int (length params) + 3), word_of_int (opcode command) :: byte] @ params))])"
    unfolding send_command_buffer_def t1 t2 t3 Let_def sum.case d checksum_to_bytes ..
  then show ?thesis
    using True by (simp add: spec_frame_def Let_def)
next
  case False
  then show ?thesis
    unfolding send_command_buffer_def to_bytes_one
    by (auto simp: Let_def)
qed

lemma uint_sum_list_bytes:
  "uint (sum_list bs :: byte) = sum_list (map uint bs) mod 256"
proof -
  have "uint (sum_list bs :: byte) = uint (word_of_int (sum_list (map uint bs)) :: byte)"
    by (simp only: word_of_int_sum_list_uint)
  then show ?thesis
    by (simp add: uint_word_of_int)
qed

lemma uint_NOT_byte: "uint (NOT w :: byte) = 255 - uint w"
proof -
  have "NOT w = 255 - w"
    by (simp add: not_eq_complement)
  moreover have "uint w \<le> uint (255 :: byte)"
    using uint_lt2p [of w] by simp
  ultimately show ?thesis
    using uint_sub_lem [of w 255] by simp
qed

lemma spec_frame_uint:
  assumes "0 \<le> servo_id" "servo_id \<le> 255" "length params \<le> 252"
  shows "map uint (spec_frame servo_id command params) =
           [0x55, 0x55, servo_id, int (length params) + 3, opcode command] @ map uint params @
           [255 - (servo_id + (int (length params) + 3) + opcode command
                     + sum_list (map uint params)) mod 256]"
proof -
  have oc: "0 \<le> opcode command \<and> opcode command < 256" by (rule opcode_range)
  have u1: "uint (word_of_int servo_id :: byte) = servo_id"
    using assms by (simp add: uint_word_of_int)
  have u2: "uint (word_of_int (int (length params) + 3) :: byte) = int (length params) + 3"
    unfolding uint_word_of_int using assms by simp
  have u3: "uint (word_of_int (opcode command) :: byte) = opcode command"
    using oc by (simp add: uint_word_of_int)
  let ?body = "[word_of_int servo_id, word_of_int (int (length params) + 3),
                word_of_int (opcode command)] @ params"
  have b: "map uint ?body = [servo_id, int (length params) + 3, opcode command] @ map uint params"
    by (simp only: map_append list.map u1 u2 u3)
  have k: "uint (NOT (sum_list ?body)) = 255 - sum_list (map uint ?body) mod 256"
    by (simp only: uint_NOT_byte uint_sum_list_bytes)
  have "map uint (spec_frame servo_id command params) =
          [0x55, 0x55] @ map uint ?body @ [255 - sum_list (map uint ?body) mod 256]"
    unfolding spec_frame_def Let_def
    by (simp only: map_append k list.map) simp
  then show ?thesis
    unfolding b by (simp add: algebra_simps)
qed

section \<open>The frame that send_command writes\<close>

text \<open>
  C2. On a connected controller whose transport accepts the write, \<^verbatim>\<open>send_command\<close>
  appends to the transport exactly the frame of the specification: 0x55, 0x55, the
  destination, the payload length plus three, the opcode, the payload, and the
  complement of the sum mod 256 of the bytes from the destination to the end of the
  payload. It does so whenever the destination is a byte and the payload has at most
  252 bytes; otherwise a byte does not hold the destination or the length, and
  \<^verbatim>\<open>to_bytes\<close> raises OverflowError before anything is written. Read as integers, the
  bytes of the frame are the destination, the length plus three and the opcode
  themselves, and the last byte is 255 minus the sum mod 256.
\<close>

theorem send_command_frame:
  assumes "handle s = Some h" and "\<not> write_fails h"
  shows "send_command servo_id command params s =
     (if 0 \<le> servo_id \<and> servo_id \<le> 255 \<and> length params \<le> 252
      then (Inr (), s\<lparr>handle := Some (h\<lparr>written := written h @ spec_frame servo_id command params\<rparr>)\<rparr>)
      else (Inl OverflowError, s))
   \<and> (0 \<le> servo_id \<and> servo_id \<le> 255 \<and> length params \<le> 252 \<longrightarrow>
        map uint (spec_frame servo_id command params) =
           [0x55, 0x55, servo_id, int (length params) + 3, opcode command] @ map uint params @
           [255 - (servo_id + (int (length params) + 3) + opcode command
                     + sum_list (map uint params)) mod 256])"
  using assms spec_frame_uint [of servo_id params command]
  by (simp add: send_command_def check_handle_def send_command_buffer_eq serial_write_def)

theorem send_command_frame_witness:
  "send_command 1 SERVO_POS_READ [] (connected_with []) =
     (Inr (), (connected_with [])\<lparr>handle := Some \<lparr>port = ''/dev/ttyUSB0'', in_buffer = [],
         written = [0x55, 0x55, 0x01, 0x03, 0x1C, 0xDF], write_fails = False\<rparr>\<rparr>)"
  using send_command_frame [of "connected_with []" "\<lparr>port = ''/dev/ttyUSB0'', in_buffer = [],
         written = [], write_fails = False\<rparr>" 1 SERVO_POS_READ "[]"]
  by (simp add: connected_with_def spec_frame_def)

section \<open>Reading back a frame that was sent\<close>

lemma read_frame_spec_frame:
  assumes sid: "0 \<le> servo_id" "servo_id \<le> 255" and len: "length params \<le> 252"
    and buf: "in_buffer h = spec_frame servo_id command params @ rest"
  shows "read_frame servo_id (Some command) h = (Inr (command, params), h\<lparr>in_buffer := rest\<rparr>)"
proof -
  define d :: byte where "d = word_of_int servo_id"
  define l :: byte where "l = word_of_int (int (length params) + 3)"
  define c :: byte where "c = word_of_int (opcode command)"
  define k :: byte where "k = NOT (sum_list ([d, l, c] @ params))"
  have oc: "0 \<le> opcode command \<and> opcode command < 256" by (rule opcode_range)
  have ud: "uint d = servo_id"
    unfolding d_def uint_word_of_int using sid by simp
  have ul: "uint l = int (length params) + 3"
    unfolding l_def uint_word_of_int using len by simp
  have uc: "uint c = opcode command"
    unfolding c_def uint_word_of_int using oc by simp
  have fr: "in_buffer h = [0x55, 0x55, d, l] @ (c # params @ [k]) @ rest"
    unfolding buf spec_frame_def Let_def d_def l_def c_def k_def by simp
  have r1: "serial_read 4 h = ([0x55, 0x55, d, l], h\<lparr>in_buffer := c # params @ k # rest\<rparr>)"
    unfolding serial_read_def fr by simp
  have r2: "serial_read (uint l - 1) (h\<lparr>in_buffer := c # params @ k # rest\<rparr>)
              = (c # params @ [k], h\<lparr>in_buffer := rest\<rparr>)"
    unfolding serial_read_def ul by (simp add: nat_add_distrib)
  have ck: "uint k = NOT (sum_list (map uint ([d, l, c] @ params))) mod 256"
  proof -
    have "uint k = uint (word_of_int (NOT (sum_list (map uint ([d, l, c] @ params))) mod 256) :: byte)"
      unfolding k_def by (simp only: checksum_word)
    then show ?thesis
      by (simp only: uint_word_of_int) simp
  qed
  have b1: "butlast ([0x55, 0x55, d, l] @ c # params @ [k]) = [0x55, 0x55, d, l, c] @ params"
    by (simp add: butlast_append)
  have l1: "last ([0x55, 0x55, d, l] @ c # params @ [k]) = k"
    by simp
  have g2: "getitem [0x55, 0x55, d, l] 2 = Inr d" and g3: "getitem [0x55, 0x55, d, l] 3 = Inr l"
    and g4: "getitem ([0x55, 0x55, d, l] @ c # params @ [k]) 4 = Inr c"
    by (simp_all add: getitem_def)
  have d2: "drop 2 ([0x55, 0x55, d, l, c] @ params) = [d, l, c] @ params"
    and d5: "drop 5 ([0x55, 0x55, d, l, c] @ params) = params"
    by simp_all
  show ?thesis
    unfolding read_frame_def r1 Let_def prod.case g2 g3 sum.case r2 b1 l1 g4 d2 d5 option.case
      uc ud ck Command_of_value_opcode
    by simp
qed

lemma spec_frame_not_Nil: "spec_frame servo_id command params \<noteq> []"
  by (simp add: spec_frame_def Let_def)

text \<open>
  C1. For every destination that is a byte (every ServoId, the broadcast address
  included), every command and every payload of at most 252 bytes, \<^verbatim>\<open>send_command\<close> on
  a connected controller writes a frame, and \<^verbatim>\<open>read_response\<close>, called with that
  destination and that command on a transport where this frame is waiting (followed by
  any further bytes), returns exactly the command and the payload, and leaves the
  further bytes unread.
\<close>

theorem send_command_read_response_roundtrip:
  assumes "0 \<le> servo_id" and "servo_id \<le> 255" and "length params \<le> 252"
    and "handle s = Some h" and "\<not> write_fails h"
  shows "\<exists>frame.
           send_command servo_id command params s =
             (Inr (), s\<lparr>handle := Some (h\<lparr>written := written h @ frame\<rparr>)\<rparr>)
         \<and> (\<forall>t g rest.
               read_response servo_id (Some command)
                   (t\<lparr>handle := Some (g\<lparr>in_buffer := frame @ rest\<rparr>)\<rparr>) =
                 Some (Inr (command, params), t\<lparr>handle := Some (g\<lparr>in_buffer := rest\<rparr>)\<rparr>))"
proof (intro exI conjI allI)
  show "send_command servo_id command params s =
          (Inr (), s\<lparr>handle := Some (h\<lparr>written := written h @ spec_frame servo_id command params\<rparr>)\<rparr>)"
    using assms by (simp add: send_command_def check_handle_def send_command_buffer_eq serial_write_def)
next
  fix t :: state and g :: serial and rest :: "byte list"
  let ?g = "g\<lparr>in_buffer := spec_frame servo_id command params @ rest\<rparr>"
  have w: "wait_in_waiting ?g = Some ()"
    by (rule wait_in_waiting_ready) (simp add: in_waiting_def spec_frame_not_Nil)
  have "read_frame servo_id (Some command) ?g = (Inr (command, params), ?g\<lparr>in_buffer := rest\<rparr>)"
    using assms(1-3) by (rule read_frame_spec_frame) simp
  then show "read_response servo_id (Some command) (t\<lparr>handle := Some ?g\<rparr>) =
          Some (Inr (command, params), t\<lparr>handle := Some (g\<lparr>in_buffer := rest\<rparr>)\<rparr>)"
    by (simp add: read_response_def check_handle_def w)
qed

theorem send_command_read_response_roundtrip_witness:
  "send_command 1 SERVO_POS_READ [0xF4, 0x01] (connected_with []) =
     (Inr (), (connected_with [])\<lparr>handle := Some \<lparr>port = ''/dev/ttyUSB0'', in_buffer = [],
         written = [0x55, 0x55, 0x01, 0x05, 0x1C, 0xF4, 0x01, 0xE8], write_fails = False\<rparr>\<rparr>)
   \<and> read_response 1 (Some SERVO_POS_READ)
         (connected_with [0x55, 0x55, 0x01, 0x05, 0x1C, 0xF4, 0x01, 0xE8]) =
       Some (Inr (SERVO_POS_READ, [0xF4, 0x01]), connected_with [])"
proof -
  let ?h = "\<lparr>port = ''/dev/ttyUSB0'', in_buffer = [], written = [], write_fails = False\<rparr>"
  obtain frame where
    1: "send_command 1 SERVO_POS_READ [0xF4, 0x01] (connected_with []) =
          (Inr (), (connected_with [])\<lparr>handle := Some (?h\<lparr>written := written ?h @ frame\<rparr>)\<rparr>)"
    and 2: "\<And>t g rest. read_response 1 (Some SERVO_POS_READ)
                   (t\<lparr>handle := Some (g\<lparr>in_buffer := frame @ rest\<rparr>)\<rparr>) =
                 Some (Inr (SERVO_POS_READ, [0xF4, 0x01]), t\<lparr>handle := Some (g\<lparr>in_buffer := rest\<rparr>)\<rparr>)"
    using send_command_read_response_roundtrip [where servo_id = 1 and params = "[0xF4, 0x01]"
        and s = "connected_with []" and h = ?h and command = SERVO_POS_READ]
    by (auto simp: connected_with_def)
  have "send_command 1 SERVO_POS_READ [0xF4, 0x01] (connected_with []) =
     (Inr (), (connected_with [])\<lparr>handle := Some \<lparr>port = ''/dev/ttyUSB0'', in_buffer = [],
         written = [0x55, 0x55, 0x01, 0x05, 0x1C, 0xF4, 0x01, 0xE8], write_fails = False\<rparr>\<rparr>)"
    by (simp add: send_command_def check_handle_def send_command_buffer_eq serial_write_def connected_with_def spec_frame_def)
  with 1 have f: "frame = [0x55, 0x55, 0x01, 0x05, 0x1C, 0xF4, 0x01, 0xE8]"
    by (simp add: connected_with_def)
  show ?thesis
    using 1 2 [where t = "connected_with []" and g = ?h and rest = "[]"] unfolding f
    by (simp add: connected_with_def)
qed

section \<open>Malformed responses\<close>

text \<open>Whatever follows a wrong header, the error is the TypeError.\<close>

lemma read_frame_header:
  "take 2 (in_buffer h) \<noteq> [0x55, 0x55] \<Longrightarrow>
     fst (read_frame servo_id command h) =
       Inl (TypeError ''bytes object cannot be interpreted as an integer'')"
  by (simp add: read_frame_def serial_read_def Let_def)

text \<open>
  C3. A response whose first two bytes are 0x55 0x56 makes \<^verbatim>\<open>read_response\<close> raise a
  TypeError, not the RuntimeError it is building: the message of that RuntimeError
  applies \<^verbatim>\<open>hex\<close> to a \<^verbatim>\<open>bytes\<close> object. A response with a good header, the expected
  destination and command and a tampered checksum byte raises the RuntimeError for the
  checksum.
\<close>

theorem read_response_bad_header:
  "read_response 1 (Some SERVO_POS_READ)
       (connected_with [0x55, 0x56, 0x01, 0x05, 0x1C, 0xF4, 0x01, 0xE8]) =
     Some (Inl (TypeError ''bytes object cannot be interpreted as an integer''),
           connected_with [0x1C, 0xF4, 0x01, 0xE8])
   \<and> read_response 1 (Some SERVO_POS_READ)
       (connected_with [0x55, 0x55, 0x01, 0x05, 0x1C, 0xF4, 0x01, 0xE9]) =
     Some (Inl (RuntimeError ''Invalid response checksum''), connected_with [])"
  by (simp add: read_response_def check_handle_def connected_with_def wait_in_waiting_ready in_waiting_def
      read_frame_def serial_read_def getitem_def SERVO_BRODCAST_def Let_def)

section \<open>Range checks of set_move_time\<close>

text \<open>
  C4. When the position is outside 0..1000 or the time outside 0..30000,
  \<^verbatim>\<open>set_move_time\<close> raises a RuntimeError and returns the state it was given, so no byte
  reaches the transport. On a connected controller the error is the one for the position
  or, when the position is in range, the one for the time; without a connection it is
  the error of \<^verbatim>\<open>check_handle\<close>, which comes first.
\<close>

theorem set_move_time_out_of_range:
  assumes "position < 0 \<or> position > 1000 \<or> time < 0 \<or> time > 30000"
  shows "set_move_time position time is_wait servo_id s =
          (Inl (RuntimeError
                 (if handle s = None then ''Servo controller is not connected''
                  else if position < 0 \<or> position > 1000 then ''Invalid position (0~1000)''
                  else ''Invalid time (0~30000)'')), s)"
  using assms
  by (auto simp: set_move_time_def check_handle_def split: option.splits)

theorem set_move_time_out_of_range_witness:
  "set_move_time 1001 1000 False SERVO_BRODCAST (connected_with []) =
     (Inl (RuntimeError ''Invalid position (0~1000)''), connected_with [])
   \<and> written (the (handle (connected_with []))) = []"
  using set_move_time_out_of_range [of 1001 1000 False SERVO_BRODCAST "connected_with []"]
  by (simp add: connected_with_def)


section \<open>Rounding to a double\<close>










section \<open>Degrees to command units\<close>







text \<open>
  The literals 0.24 and 1.2 are the doubles below. On them \<^verbatim>\<open>degree2cmd\<close> returns 1 and
  5, one more than the floor of the exact quotient: the product rounds up to 240 and to
  1200.
\<close>

lemma degree2cmd_double_0_24:
  "round_double (24 / 100) = Finite (1080863910568919 / 4503599627370496)"
  "degree2cmd (Finite (1080863910568919 / 4503599627370496)) = Inr 1"
  by code_simp+

lemma degree2cmd_double_1_2:
  "round_double (12 / 10) = Finite (5404319552844595 / 4503599627370496)"
  "degree2cmd (Finite (5404319552844595 / 4503599627370496)) = Inr 5"
  by code_simp+




section \<open>set_motor_mode\<close>

text \<open>
  With a speed, on a connected controller: ValueError outside -1000..1000, TypeError
  inside; the state is the one given in both cases.
\<close>

lemma set_motor_mode_speed:
  "handle s = Some h \<Longrightarrow>
     set_motor_mode (Some v) servo_id s =
       (if v < -1000 \<or> v > 1000 then (Inl (ValueError ''Invalid speed (-1000~1000)''), s)
        else (Inl (TypeError ''to_bytes() takes at most 2 positional arguments''), s))"
  by (simp add: set_motor_mode_def check_handle_def param2bytes_def to_bytes_def)

text \<open>
  C6. On a connected controller, \<^verbatim>\<open>set_motor_mode\<close> with the speed 500 raises TypeError
  and writes nothing: \<^verbatim>\<open>param2bytes\<close> passes \<^verbatim>\<open>is_signed\<close> to \<^verbatim>\<open>to_bytes\<close> as a third
  positional argument. With no speed it writes one frame with opcode 29.
\<close>

theorem set_motor_mode_speed_raises:
  "set_motor_mode (Some 500) SERVO_BRODCAST (connected_with []) =
     (Inl (TypeError ''to_bytes() takes at most 2 positional arguments''), connected_with [])
   \<and> set_motor_mode None SERVO_BRODCAST (connected_with []) =
     (Inr (), (connected_with [])\<lparr>handle := Some \<lparr>port = ''/dev/ttyUSB0'', in_buffer = [],
         written = [0x55, 0x55, 0xFE, 0x07, 0x1D, 0x00, 0x00, 0x00, 0x00, 0xDD],
         write_fails = False\<rparr>\<rparr>)"
  by (simp add: set_motor_mode_def check_handle_def connected_with_def param2bytes_def
      to_bytes_def send_command_def send_command_buffer_eq serial_write_def spec_frame_def
      SERVO_BRODCAST_def)

section \<open>set_led_error\<close>

text \<open>
  C7. On a connected controller, \<^verbatim>\<open>set_led_error\<close> raises UnboundLocalError at its
  first \<^verbatim>\<open>status += ...\<close> and writes nothing.
\<close>

theorem set_led_error_raises:
  "set_led_error True False True SERVO_BRODCAST (connected_with []) =
     (Inl (UnboundLocalError ''cannot access local variable status''), connected_with [])"
  by (simp add: set_led_error_def check_handle_def connected_with_def aug_add_def)

section \<open>set_id\<close>

text \<open>
  C8. On a connected controller, \<^verbatim>\<open>set_id\<close> to the broadcast address raises TypeError
  at \<^verbatim>\<open>id < 0\<close> when \<^verbatim>\<open>id\<close> is the builtin function: no warning, nothing written. When
  \<^verbatim>\<open>id\<close> is bound to an integer in 0..253 the warning is issued, and then
  \<^verbatim>\<open>param2bytes\<close> raises TypeError: nothing is written either.
\<close>

theorem set_id_broadcast_raises:
  "set_id BuiltinFunction 1 SERVO_BRODCAST (connected_with []) =
     (Inl (TypeError ''< not supported between builtin_function_or_method and int''),
      connected_with [])
   \<and> set_id (IntObj 7) 1 SERVO_BRODCAST (connected_with []) =
     (Inl (TypeError ''to_bytes() takes at most 2 positional arguments''),
      warn ''You are broadcasting writing id!'' (connected_with []))"
  by (simp add: set_id_def check_handle_def connected_with_def py_lt_def py_gt_def
      param2bytes_def to_bytes_def SERVO_BRODCAST_def warn_def)

section \<open>param2bytes\<close>

text \<open>
  With \<^verbatim>\<open>signed\<close> given by keyword, \<^verbatim>\<open>to_bytes\<close> and \<^verbatim>\<open>from_bytes\<close> are inverse on every
  value that fits the width.
\<close>

lemma little_endian_Suc:
  "little_endian (Suc n) v = word_of_int v # little_endian n (v div 256)"
proof -
  have "[0..<Suc n] = 0 # map Suc [0..<n]"
    by (simp add: upt_conv_Cons map_Suc_upt del: upt_Suc)
  then have "little_endian (Suc n) v =
      word_of_int (v div 256 ^ 0) # map (\<lambda>i. word_of_int (v div 256 ^ Suc i)) [0..<n]"
    unfolding little_endian_def by (simp add: comp_def del: upt_Suc power_Suc)
  moreover have "\<And>i. v div 256 ^ Suc i = v div 256 div 256 ^ i"
    by (simp add: zdiv_zmult2_eq)
  ultimately show ?thesis
    by (simp add: little_endian_def del: upt_Suc)
qed

lemma foldr_little_endian:
  "foldr (\<lambda>b acc. uint b + 256 * acc) (little_endian n v) 0 = v mod 256 ^ n"
proof (induction n arbitrary: v)
  case 0
  then show ?case by (simp add: little_endian_def)
next
  case (Suc n)
  have "uint (word_of_int v :: byte) = v mod 256"
    by (simp add: uint_word_of_int)
  then show ?case
    using Suc.IH [of "v div 256"]
    by (simp add: little_endian_Suc zmod_zmult2_eq)
qed

lemma length_little_endian: "length (little_endian n v) = n"
  by (simp add: little_endian_def)

lemma from_bytes_to_bytes_little:
  assumes "to_bytes_little v n sg = Inr bs"
  shows "from_bytes_little bs sg = v"
proof -
  have p: "(256::int) ^ n = 2 ^ (8 * n)"
    by (simp add: power_mult)
  show ?thesis
  proof (cases sg)
    case False
    with assms have "0 \<le> v" "v < 2 ^ (8 * n)" "bs = little_endian n v"
      by (auto simp: to_bytes_little_def split: if_splits)
    then show ?thesis
      using False by (simp add: from_bytes_little_def foldr_little_endian p)
  next
    case True
    with assms have r: "- (2 ^ (8 * n)) \<le> 2 * v" "2 * v < 2 ^ (8 * n)" and bs: "bs = little_endian n v"
      by (auto simp: to_bytes_little_def split: if_splits)
    show ?thesis
    proof (cases "0 \<le> v")
      case True
      then have "v mod 2 ^ (8 * n) = v"
        using r by simp
      then show ?thesis
        using \<open>sg\<close> r by (simp add: from_bytes_little_def foldr_little_endian p bs length_little_endian)
    next
      case False
      then have "(v + 2 ^ (8 * n)) mod 2 ^ (8 * n) = v + 2 ^ (8 * n)"
        using r by (intro mod_pos_pos_trivial) simp_all
      then have "v mod 2 ^ (8 * n) = v + 2 ^ (8 * n)"
        by simp
      then show ?thesis
        using \<open>sg\<close> r by (simp add: from_bytes_little_def foldr_little_endian p bs length_little_endian)
    qed
  qed
qed

text \<open>\<^verbatim>\<open>param2bytes\<close> does not give it by keyword, and raises on every input.\<close>

lemma param2bytes_always_raises:
  "param2bytes param len is_signed =
     Inl (TypeError ''to_bytes() takes at most 2 positional arguments'')"
  by (simp add: param2bytes_def to_bytes_def)

text \<open>
  C9. \<^verbatim>\<open>param2bytes(-1000, 2, True)\<close> raises TypeError: it produces no bytes to decode.
\<close>

theorem param2bytes_raises:
  "param2bytes (-1000) 2 True =
     Inl (TypeError ''to_bytes() takes at most 2 positional arguments'')"
  by (simp add: param2bytes_def to_bytes_def)

section \<open>connect and disconnect\<close>

lemma connect_connected:
  "handle s = Some h \<Longrightarrow>
     connect device s = (Inr (), print ''Servo controller is already connected'' s)"
  by (simp add: connect_def)

lemma one_transport_connect: "one_transport s \<Longrightarrow> one_transport (snd (connect device s))"
  by (auto simp: one_transport_def connect_def Serial_def print_def split: option.splits)

lemma one_transport_disconnect: "one_transport s \<Longrightarrow> one_transport (snd (disconnect s))"
  by (auto simp: one_transport_def disconnect_def check_handle_def serial_close_def print_def
      split: option.splits)

lemma one_transport_run_calls: "one_transport s \<Longrightarrow> one_transport (run_calls calls s)"
proof (induction calls arbitrary: s)
  case Nil
  then show ?case by simp
next
  case (Cons c calls)
  have "one_transport (snd (run_call c s))"
    using Cons.prems by (cases c) (simp_all add: one_transport_connect one_transport_disconnect)
  then show ?case
    using Cons.IH by simp
qed

lemma one_transport_length: "one_transport s \<Longrightarrow> length (open_ports s) \<le> 1"
  by (simp add: one_transport_def split: option.splits)

text \<open>
  C10. On a controller that holds a handle, \<^verbatim>\<open>connect\<close> returns without raising,
  prints that the controller is already connected, and leaves the handle and the open
  transports as they are. From a state where the open
  transports are the one the controller holds (if any), as in the unconnected state the
  process starts in, every sequence of \<^verbatim>\<open>connect\<close> and \<^verbatim>\<open>disconnect\<close> calls ends in such
  a state: at most one transport is open.
\<close>

theorem connect_at_most_one_transport:
  "(handle s \<noteq> None \<longrightarrow>
      fst (connect device s) = Inr ()
      \<and> handle (snd (connect device s)) = handle s
      \<and> open_ports (snd (connect device s)) = open_ports s
      \<and> stdout (snd (connect device s)) = stdout s @ [''Servo controller is already connected''])
   \<and> (one_transport s \<longrightarrow>
        one_transport (run_calls calls s) \<and> length (open_ports (run_calls calls s)) \<le> 1)"
proof (intro conjI impI)
  assume "handle s \<noteq> None"
  then obtain h where h: "handle s = Some h"
    by auto
  show "fst (connect device s) = Inr ()"
    and "handle (snd (connect device s)) = handle s"
    and "open_ports (snd (connect device s)) = open_ports s"
    and "stdout (snd (connect device s)) = stdout s @ [''Servo controller is already connected'']"
    by (simp_all add: connect_connected [OF h] print_def)
next
  assume "one_transport s"
  then show "one_transport (run_calls calls s)"
    by (rule one_transport_run_calls)
  then show "length (open_ports (run_calls calls s)) \<le> 1"
    by (rule one_transport_length)
qed

theorem connect_at_most_one_transport_witness:
  "handle (connected_with []) \<noteq> None
   \<and> fst (connect ''/dev/ttyUSB1'' (connected_with [])) = Inr ()
   \<and> handle (snd (connect ''/dev/ttyUSB1'' (connected_with []))) = handle (connected_with [])
   \<and> open_ports (snd (connect ''/dev/ttyUSB1'' (connected_with []))) = [''/dev/ttyUSB0'']
   \<and> one_transport (unconnected [''/dev/ttyUSB0'', ''/dev/ttyUSB1''])
   \<and> length (open_ports (run_calls
         [Connect ''/dev/ttyUSB0'', Connect ''/dev/ttyUSB1'', Disconnect, Disconnect,
          Connect ''/dev/ttyUSB1'']
         (unconnected [''/dev/ttyUSB0'', ''/dev/ttyUSB1'']))) \<le> 1"
proof -
  have c: "handle (connected_with []) \<noteq> None"
    by (simp add: connected_with_def)
  have u: "one_transport (unconnected [''/dev/ttyUSB0'', ''/dev/ttyUSB1''])"
    by (simp add: one_transport_def unconnected_def)
  show ?thesis
    using c u
      connect_at_most_one_transport [of "connected_with []" "''/dev/ttyUSB1''" "[]"]
      connect_at_most_one_transport [of "unconnected [''/dev/ttyUSB0'', ''/dev/ttyUSB1'']"
        "''/dev/ttyUSB1''"
        "[Connect ''/dev/ttyUSB0'', Connect ''/dev/ttyUSB1'', Disconnect, Disconnect,
          Connect ''/dev/ttyUSB1'']"]
    by (simp add: connected_with_def)
qed

end
